theory Spec2Isabelle
  imports Complex_Main
begin

section \<open>The acne simulation engine (simulation.js) and its driver (main.js)\<close>

text \<open>
  The engine is the class \<open>AcneSimulation\<close> of simulation.js. An instance is a record of
  its fields; every method takes the instance and returns the mutated instance.
  JavaScript numbers are modelled as real numbers (exact arithmetic, no rounding, no NaN);
  \<open>Math.min\<close> and \<open>Math.max\<close> are \<open>min\<close> and \<open>max\<close>. Writes to the console and to
  the DOM are not part of the instance and are left out, except the \<open>console.error\<close> of
  \<open>setStage\<close>, which is returned. A method that can throw returns a completion
  together with the instance as it stands when the exception leaves the method.
\<close>

subsection \<open>Data\<close>

datatype js_error = TypeError string

datatype completion = Normal | Throw js_error

text \<open>
  The fields the constructor assigns (simulation.js 5-45), and the three fields that
  methods create later: \<open>baselineInflammation\<close> and \<open>humidityEffect\<close>
  (\<open>updateDerivedRates\<close>) and \<open>lastLogTime\<close> (\<open>updateBiologicalState\<close>), which are
  \<open>undefined\<close> (\<open>None\<close>) on a fresh instance. The stage is a string, as in the source.
\<close>

record AcneSimulation =
  simulationTime :: real
  timeScale :: real
  simulationStage :: string
  sebumValue :: real
  bacteriaValue :: real
  medicationValue :: real
  inflammationValue :: real
  healingValue :: real
  temperatureValue :: real
  humidityValue :: real
  frictionValue :: real
  sebumRate :: real
  bacteriaGrowthRate :: real
  currentSebumLevel :: real
  currentBacteriaLevel :: real
  currentInflammationLevel :: real
  currentNeutrophilLevel :: real
  currentPusLevel :: real
  currentMedicationLevel :: real
  progressionAccelerator :: real
  healingProgress :: real
  baselineInflammation :: "real option"
  humidityEffect :: "real option"
  lastLogTime :: "int option"

text \<open>
  The seven thresholds are fields that the constructor sets and nothing ever writes again
  (simulation.js 32-38); they are constants here.
\<close>

definition SEBUM_THRESHOLD :: real where
  "SEBUM_THRESHOLD = 70"

definition BACTERIA_THRESHOLD :: real where
  "BACTERIA_THRESHOLD = 60"

definition INFLAMMATION_THRESHOLD :: real where
  "INFLAMMATION_THRESHOLD = 40"

definition PUS_THRESHOLD :: real where
  "PUS_THRESHOLD = 70"

definition RUPTURE_THRESHOLD :: real where
  "RUPTURE_THRESHOLD = 90"

definition HEALING_THRESHOLD :: real where
  "HEALING_THRESHOLD = 30"

definition RESOLVED_THRESHOLD :: real where
  "RESOLVED_THRESHOLD = 80"

text \<open>The constructor (simulation.js 5-45).\<close>

definition new_AcneSimulation :: AcneSimulation where
  "new_AcneSimulation =
     \<lparr> simulationTime = 0,
       timeScale = 1,
       simulationStage = ''incubation'',
       sebumValue = 500,
       bacteriaValue = 200,
       medicationValue = 0,
       inflammationValue = 500,
       healingValue = 500,
       temperatureValue = 500,
       humidityValue = 500,
       frictionValue = 0,
       sebumRate = 0.05,
       bacteriaGrowthRate = 0.05,
       currentSebumLevel = 20,
       currentBacteriaLevel = 0,
       currentInflammationLevel = 0,
       currentNeutrophilLevel = 0,
       currentPusLevel = 0,
       currentMedicationLevel = 0,
       progressionAccelerator = 1.0,
       healingProgress = 0,
       baselineInflammation = None,
       humidityEffect = None,
       lastLogTime = None \<rparr>"

subsection \<open>Method lookup\<close>

text \<open>
  The methods the class body of \<open>AcneSimulation\<close> defines, in source order
  (simulation.js 48-581). The constructor stores only numbers and strings in the
  instance, so these are all the functions a call \<open>simulation.name(...)\<close> can find.
\<close>

definition AcneSimulation_methods :: "string list" where
  "AcneSimulation_methods =
     [''updateDerivedRates'', ''updateBiologicalState'', ''checkStageTransitions'',
      ''setProgressionAccelerator'', ''advanceToNextStage'', ''update'', ''setStage'',
      ''resetStageProgress'', ''updateProgressBar'', ''skipToNextStage'',
      ''updateParameters'', ''updateVisualization'', ''updateUI'',
      ''updateParameterDisplays'']"

text \<open>
  The lookup that precedes a call \<open>obj.name(...)\<close> on an instance: a name the class
  does not define reads as \<open>undefined\<close>, and calling it throws a TypeError. It is used
  below for the calls of the source whose method has no definition in the repository.
\<close>

definition callMethod :: "string \<Rightarrow> completion" where
  "callMethod name =
     (if name \<in> set AcneSimulation_methods then Normal
      else Throw (TypeError (name @ '' is not a function'')))"

subsection \<open>Rate derivation and integration\<close>

text \<open>\<open>updateDerivedRates\<close> (simulation.js 48-70).\<close>

definition updateDerivedRates :: "AcneSimulation \<Rightarrow> AcneSimulation" where
  "updateDerivedRates s =
     s\<lparr> sebumRate := 0.05 * (1 + 0.002 * (temperatureValue s - 500)) * progressionAccelerator s,
        bacteriaGrowthRate := 0.05 * (1 + 0.001 * (temperatureValue s - 500)) *
                              (1 - medicationValue s / 2000) * progressionAccelerator s,
        baselineInflammation :=
          Some (if frictionValue s > 300 then (frictionValue s - 300) / 1400 else 0),
        humidityEffect :=
          Some (if humidityValue s > 600 then 1 + (humidityValue s - 600) / 800 else 1),
        currentMedicationLevel := currentMedicationLevel s * 0.99 + medicationValue s * 0.01 \<rparr>"

text \<open>
  \<open>updateBiologicalState\<close> (simulation.js 73-135) is a sequence of six blocks, each
  reading the instance as the previous block left it. Each block is one definition.
\<close>

text \<open>Lines 75-76: sebum.\<close>

definition integrateSebum :: "real \<Rightarrow> AcneSimulation \<Rightarrow> AcneSimulation" where
  "integrateSebum dt s =
     (let scaledSebumRate = sebumRate s * (sebumValue s / 500) * dt
      in s\<lparr> currentSebumLevel := min 100 (currentSebumLevel s + scaledSebumRate) \<rparr>)"

text \<open>Lines 79-90: bacteria, once the stage is no longer incubation.\<close>

definition integrateBacteria :: "real \<Rightarrow> AcneSimulation \<Rightarrow> AcneSimulation" where
  "integrateBacteria dt s =
     (if simulationStage s \<noteq> ''incubation'' then
        let baseBacteriaGrowth =
              (if currentBacteriaLevel s > 0
               then currentBacteriaLevel s * bacteriaGrowthRate s * dt
               else bacteriaValue s / 100 * dt * 2.0);
            grown = min 100 (currentBacteriaLevel s + baseBacteriaGrowth)
        in s\<lparr> currentBacteriaLevel :=
                (if medicationValue s > 0
                 then max 0 (grown - (medicationValue s / 10000) * dt)
                 else grown) \<rparr>
      else s)"

text \<open>Lines 93-104: inflammation and neutrophils.\<close>

definition integrateInflammation :: "real \<Rightarrow> AcneSimulation \<Rightarrow> AcneSimulation" where
  "integrateInflammation dt s =
     (if currentBacteriaLevel s > BACTERIA_THRESHOLD \<or>
         (simulationStage s = ''comedone'' \<or> simulationStage s = ''papule'') then
        let inflammationRate =
              ((max (currentBacteriaLevel s) 30 - 30) / 40) *
              (inflammationValue s / 500) * dt * progressionAccelerator s;
            inflamed = min 100 (currentInflammationLevel s + inflammationRate)
        in s\<lparr> currentInflammationLevel := inflamed,
                currentNeutrophilLevel :=
                  (if inflamed > INFLAMMATION_THRESHOLD / 2
                   then min 100 (currentNeutrophilLevel s + inflammationRate * 2.0)
                   else currentNeutrophilLevel s) \<rparr>
      else s)"

text \<open>Lines 107-110: pus.\<close>

definition integratePus :: "real \<Rightarrow> AcneSimulation \<Rightarrow> AcneSimulation" where
  "integratePus dt s =
     (if currentNeutrophilLevel s > 10 \<and>
         (simulationStage s = ''papule'' \<or> simulationStage s = ''pustule'') then
        s\<lparr> currentPusLevel :=
             min 100 (currentPusLevel s +
                      (currentNeutrophilLevel s / 80) * dt * progressionAccelerator s) \<rparr>
      else s)"

text \<open>
  Lines 113-128: the healing phase. The three levels decay first; the stage is then
  promoted on the decayed levels; the healing progress is raised last.
\<close>

definition integrateHealing :: "real \<Rightarrow> AcneSimulation \<Rightarrow> AcneSimulation" where
  "integrateHealing dt s =
     (if simulationStage s = ''healing'' \<or> simulationStage s = ''resolved'' then
        let healingRate = (healingValue s / 500) * dt;
            inflammation = max 0 (currentInflammationLevel s - healingRate);
            neutrophils = max 0 (currentNeutrophilLevel s - healingRate * 1.2);
            pus = max 0 (currentPusLevel s - healingRate * 0.8)
        in s\<lparr> currentInflammationLevel := inflammation,
                currentNeutrophilLevel := neutrophils,
                currentPusLevel := pus,
                simulationStage :=
                  (if simulationStage s = ''healing'' \<and> inflammation < 10 \<and> pus < 5
                   then ''resolved'' else simulationStage s),
                healingProgress := min (healingProgress s + healingRate) 100 \<rparr>
      else s)"

text \<open>
  Lines 131-134: the periodic log; what it leaves in the instance is \<open>lastLogTime\<close>.
  The remainder test \<open>x % 10 === 0\<close> holds exactly when 10 divides \<open>x\<close>.
\<close>

definition logPeriodically :: "AcneSimulation \<Rightarrow> AcneSimulation" where
  "logPeriodically s =
     (if \<lfloor>simulationTime s\<rfloor> mod 10 = 0 \<and>
         Some \<lfloor>simulationTime s / 10\<rfloor> \<noteq> lastLogTime s
      then s\<lparr> lastLogTime := Some \<lfloor>simulationTime s / 10\<rfloor> \<rparr>
      else s)"

definition updateBiologicalState :: "real \<Rightarrow> AcneSimulation \<Rightarrow> AcneSimulation" where
  "updateBiologicalState dt s =
     logPeriodically
       (integrateHealing dt
         (integratePus dt
           (integrateInflammation dt
             (integrateBacteria dt
               (integrateSebum dt s)))))"

subsection \<open>The stage machine\<close>

text \<open>
  \<open>checkStageTransitions\<close> (simulation.js 138-212). Every branch that changes the stage
  then calls \<open>this.updateStageVisuals()\<close>; the stage is already assigned when that call
  is made. A stage string outside the eight cases falls through the switch.
\<close>

definition checkStageTransitions :: "AcneSimulation \<Rightarrow> completion \<times> AcneSimulation" where
  "checkStageTransitions s =
     (if simulationStage s = ''incubation'' then
        (if currentBacteriaLevel s > BACTERIA_THRESHOLD \<and>
            currentInflammationLevel s > INFLAMMATION_THRESHOLD
         then (callMethod ''updateStageVisuals'', s\<lparr> simulationStage := ''comedone'' \<rparr>)
         else (Normal, s))
      else if simulationStage s = ''comedone'' then
        (if currentInflammationLevel s > INFLAMMATION_THRESHOLD
         then (callMethod ''updateStageVisuals'', s\<lparr> simulationStage := ''papule'' \<rparr>)
         else (Normal, s))
      else if simulationStage s = ''papule'' then
        (if currentPusLevel s > PUS_THRESHOLD
         then (callMethod ''updateStageVisuals'', s\<lparr> simulationStage := ''pustule'' \<rparr>)
         else (Normal, s))
      else if simulationStage s = ''pustule'' then
        (if currentPusLevel s > RUPTURE_THRESHOLD
         then (callMethod ''updateStageVisuals'', s\<lparr> simulationStage := ''rupture'' \<rparr>)
         else (Normal, s))
      else if simulationStage s = ''rupture'' then
        (if healingProgress s > HEALING_THRESHOLD
         then (callMethod ''updateStageVisuals'', s\<lparr> simulationStage := ''healing'' \<rparr>)
         else if currentBacteriaLevel s > BACTERIA_THRESHOLD \<or>
                 currentInflammationLevel s > BACTERIA_THRESHOLD
         then (callMethod ''updateStageVisuals'', s\<lparr> simulationStage := ''worsening'' \<rparr>)
         else (Normal, s))
      else if simulationStage s = ''healing'' then
        (if healingProgress s \<ge> RESOLVED_THRESHOLD
         then (callMethod ''updateStageVisuals'', s\<lparr> simulationStage := ''resolved'' \<rparr>)
         else (Normal, s))
      else (Normal, s))"

text \<open>\<open>setProgressionAccelerator\<close> (simulation.js 215-218).\<close>

definition setProgressionAccelerator :: "real \<Rightarrow> AcneSimulation \<Rightarrow> AcneSimulation" where
  "setProgressionAccelerator v s = s\<lparr> progressionAccelerator := max 0.1 (min 10.0 v) \<rparr>"

text \<open>\<open>advanceToNextStage\<close> (simulation.js 221-275).\<close>

definition advanceToNextStage :: "AcneSimulation \<Rightarrow> AcneSimulation" where
  "advanceToNextStage s =
     (if simulationStage s = ''incubation'' then
        s\<lparr> simulationStage := ''comedone'',
           currentSebumLevel := SEBUM_THRESHOLD \<rparr>
      else if simulationStage s = ''comedone'' then
        s\<lparr> simulationStage := ''papule'',
           currentInflammationLevel := INFLAMMATION_THRESHOLD,
           currentBacteriaLevel := max (currentBacteriaLevel s) (BACTERIA_THRESHOLD + 5) \<rparr>
      else if simulationStage s = ''papule'' then
        s\<lparr> simulationStage := ''pustule'',
           currentPusLevel := PUS_THRESHOLD \<rparr>
      else if simulationStage s = ''pustule'' then
        s\<lparr> simulationStage := ''rupture'',
           currentPusLevel := RUPTURE_THRESHOLD,
           healingProgress := 0 \<rparr>
      else if simulationStage s = ''rupture'' then
        s\<lparr> simulationStage := ''healing'',
           healingProgress := HEALING_THRESHOLD \<rparr>
      else if simulationStage s = ''healing'' then
        s\<lparr> simulationStage := ''resolved'',
           healingProgress := RESOLVED_THRESHOLD,
           currentInflammationLevel := 0,
           currentPusLevel := 0 \<rparr>
      else if simulationStage s = ''resolved'' then
        s\<lparr> simulationStage := ''incubation'',
           currentSebumLevel := 20,
           currentBacteriaLevel := 0,
           currentInflammationLevel := 0,
           currentNeutrophilLevel := 0,
           currentPusLevel := 0,
           healingProgress := 0 \<rparr>
      else s)"

subsection \<open>The tick\<close>

text \<open>
  \<open>updateParameters\<close> (simulation.js 519-528): the step is the literal \<open>1/60\<close>, for
  the clock and for the integration.
\<close>

definition updateParameters :: "AcneSimulation \<Rightarrow> AcneSimulation" where
  "updateParameters s =
     updateBiologicalState (1 / 60)
       (updateDerivedRates (s\<lparr> simulationTime := simulationTime s + 1 / 60 \<rparr>))"

text \<open>
  \<open>update\<close> (simulation.js 278-293) declares no parameter. After the transition check
  it calls \<open>updateVisualization\<close> (a no-op: no code assigns \<open>this.visualization\<close>),
  \<open>updateProgressBar\<close> and \<open>updateUI\<close> (DOM writes only); an exception of the
  transition check skips them and leaves \<open>update\<close>.
\<close>

definition update :: "AcneSimulation \<Rightarrow> completion \<times> AcneSimulation" where
  "update s = checkStageTransitions (updateParameters s)"

subsection \<open>Setting a stage\<close>

definition validStages :: "string list" where
  "validStages =
     [''incubation'', ''comedone'', ''papule'', ''pustule'',
      ''rupture'', ''healing'', ''worsening'', ''resolved'']"

text \<open>\<open>resetStageProgress\<close> (simulation.js 337-369).\<close>

definition resetStageProgress :: "AcneSimulation \<Rightarrow> AcneSimulation" where
  "resetStageProgress s =
     (if simulationStage s = ''incubation'' then
        s\<lparr> currentBacteriaLevel := 0, currentInflammationLevel := 0 \<rparr>
      else if simulationStage s = ''comedone'' then
        s\<lparr> currentBacteriaLevel := BACTERIA_THRESHOLD * 0.8,
           currentInflammationLevel := INFLAMMATION_THRESHOLD * 0.8 \<rparr>
      else if simulationStage s = ''papule'' then
        s\<lparr> currentInflammationLevel := INFLAMMATION_THRESHOLD * 0.8,
           currentPusLevel := 0 \<rparr>
      else if simulationStage s = ''pustule'' then
        s\<lparr> currentPusLevel := PUS_THRESHOLD * 0.8 \<rparr>
      else if simulationStage s = ''rupture'' then
        s\<lparr> currentPusLevel := RUPTURE_THRESHOLD * 0.8, healingProgress := 0 \<rparr>
      else if simulationStage s = ''healing'' then
        s\<lparr> healingProgress := HEALING_THRESHOLD * 0.8 \<rparr>
      else if simulationStage s = ''worsening'' then
        s\<lparr> currentBacteriaLevel := BACTERIA_THRESHOLD * 0.8,
           currentInflammationLevel := INFLAMMATION_THRESHOLD * 0.8 \<rparr>
      else if simulationStage s = ''resolved'' then
        s\<lparr> healingProgress := 100 \<rparr>
      else s)"

text \<open>
  \<open>setStage\<close> (simulation.js 296-334). The first component is the message of
  \<open>console.error\<close>, if it was called. After \<open>resetStageProgress\<close> the method only
  writes to the visualization and the DOM.
\<close>

definition setStage :: "string \<Rightarrow> AcneSimulation \<Rightarrow> string option \<times> AcneSimulation" where
  "setStage stage s =
     (if stage \<notin> set validStages then (Some (''Invalid stage: '' @ stage), s)
      else (None, resetStageProgress (s\<lparr> simulationStage := stage \<rparr>)))"

subsection \<open>The driver (main.js)\<close>


text \<open>
  \<open>resetSimulation\<close> (main.js 245-259) pauses (DOM and timer only) and then calls
  \<open>simulation.reset()\<close>; the statements after the call do not touch the engine.
\<close>

definition resetSimulation :: "AcneSimulation \<Rightarrow> completion \<times> AcneSimulation" where
  "resetSimulation s = (callMethod ''reset'', s)"

text \<open>
  \<open>handleSliderChange\<close> (main.js 172-212): the slider's id selects the setter that is
  called with the parsed value; an id outside the eight cases calls nothing.
\<close>

definition handleSliderChange :: "string \<Rightarrow> real \<Rightarrow> AcneSimulation \<Rightarrow> completion \<times> AcneSimulation" where
  "handleSliderChange sliderId v s =
     (if sliderId = ''sebum-slider'' then (callMethod ''setSebumParam'', s)
      else if sliderId = ''bacteria-slider'' then (callMethod ''setBacteriaParam'', s)
      else if sliderId = ''medication-slider'' then (callMethod ''setMedicationParam'', s)
      else if sliderId = ''inflammation-slider'' then (callMethod ''setInflammationParam'', s)
      else if sliderId = ''healing-slider'' then (callMethod ''setHealingParam'', s)
      else if sliderId = ''temperature-slider'' then (callMethod ''setTemperatureParam'', s)
      else if sliderId = ''humidity-slider'' then (callMethod ''setHumidityParam'', s)
      else if sliderId = ''friction-slider'' then (callMethod ''setFrictionParam'', s)
      else (Normal, s))"

subsection \<open>Ranges\<close>

text \<open>
  The documented ranges: the eight control parameters lie in [0, 1000]; the sebum,
  bacteria, inflammation, neutrophil and pus levels and the healing progress lie in
  [0, 100]. The medication level is stated apart, where it is needed.
\<close>

definition paramsInRange :: "AcneSimulation \<Rightarrow> bool" where
  "paramsInRange s \<longleftrightarrow>
     0 \<le> sebumValue s \<and> sebumValue s \<le> 1000 \<and>
     0 \<le> bacteriaValue s \<and> bacteriaValue s \<le> 1000 \<and>
     0 \<le> medicationValue s \<and> medicationValue s \<le> 1000 \<and>
     0 \<le> inflammationValue s \<and> inflammationValue s \<le> 1000 \<and>
     0 \<le> healingValue s \<and> healingValue s \<le> 1000 \<and>
     0 \<le> temperatureValue s \<and> temperatureValue s \<le> 1000 \<and>
     0 \<le> humidityValue s \<and> humidityValue s \<le> 1000 \<and>
     0 \<le> frictionValue s \<and> frictionValue s \<le> 1000"

definition levelsInRange :: "AcneSimulation \<Rightarrow> bool" where
  "levelsInRange s \<longleftrightarrow>
     0 \<le> currentSebumLevel s \<and> currentSebumLevel s \<le> 100 \<and>
     0 \<le> currentBacteriaLevel s \<and> currentBacteriaLevel s \<le> 100 \<and>
     0 \<le> currentInflammationLevel s \<and> currentInflammationLevel s \<le> 100 \<and>
     0 \<le> currentNeutrophilLevel s \<and> currentNeutrophilLevel s \<le> 100 \<and>
     0 \<le> currentPusLevel s \<and> currentPusLevel s \<le> 100 \<and>
     0 \<le> healingProgress s \<and> healingProgress s \<le> 100"

text \<open>What the integration needs of the derived rates and of the accelerator.\<close>

definition ratesNonneg :: "AcneSimulation \<Rightarrow> bool" where
  "ratesNonneg s \<longleftrightarrow>
     0 \<le> sebumRate s \<and> 0 \<le> bacteriaGrowthRate s \<and> 0 \<le> progressionAccelerator s"

section \<open>Properties\<close>

lemmas thresholds =
  SEBUM_THRESHOLD_def BACTERIA_THRESHOLD_def INFLAMMATION_THRESHOLD_def PUS_THRESHOLD_def
  RUPTURE_THRESHOLD_def HEALING_THRESHOLD_def RESOLVED_THRESHOLD_def

lemma callMethod_updateStageVisuals:
  "callMethod ''updateStageVisuals'' = Throw (TypeError ''updateStageVisuals is not a function'')"
  by (simp add: callMethod_def AcneSimulation_methods_def)

subsection \<open>The stage across one integration step\<close>

lemma stage_integrateSebum: "simulationStage (integrateSebum dt s) = simulationStage s"
  by (simp add: integrateSebum_def Let_def)

lemma stage_integrateBacteria: "simulationStage (integrateBacteria dt s) = simulationStage s"
  by (simp add: integrateBacteria_def Let_def)

lemma stage_integrateInflammation:
  "simulationStage (integrateInflammation dt s) = simulationStage s"
  by (simp add: integrateInflammation_def Let_def)

lemma stage_integratePus: "simulationStage (integratePus dt s) = simulationStage s"
  by (simp add: integratePus_def Let_def)

lemma stage_integrateHealing:
  "simulationStage (integrateHealing dt s) =
     (if simulationStage s = ''healing'' \<and>
         currentInflammationLevel (integrateHealing dt s) < 10 \<and>
         currentPusLevel (integrateHealing dt s) < 5
      then ''resolved'' else simulationStage s)"
  by (simp add: integrateHealing_def Let_def)

lemma logPeriodically_fields:
  "simulationStage (logPeriodically s) = simulationStage s"
  "currentSebumLevel (logPeriodically s) = currentSebumLevel s"
  "currentBacteriaLevel (logPeriodically s) = currentBacteriaLevel s"
  "currentInflammationLevel (logPeriodically s) = currentInflammationLevel s"
  "currentNeutrophilLevel (logPeriodically s) = currentNeutrophilLevel s"
  "currentPusLevel (logPeriodically s) = currentPusLevel s"
  "currentMedicationLevel (logPeriodically s) = currentMedicationLevel s"
  "healingProgress (logPeriodically s) = healingProgress s"
  "simulationTime (logPeriodically s) = simulationTime s"
  by (simp_all add: logPeriodically_def)

lemma stage_updateBiologicalState:
  "simulationStage (updateBiologicalState dt s) =
     (if simulationStage s = ''healing'' \<and>
         currentInflammationLevel (updateBiologicalState dt s) < 10 \<and>
         currentPusLevel (updateBiologicalState dt s) < 5
      then ''resolved'' else simulationStage s)"
  unfolding updateBiologicalState_def logPeriodically_fields
  by (subst stage_integrateHealing)
     (simp only: stage_integratePus stage_integrateInflammation stage_integrateBacteria
        stage_integrateSebum)

lemma stage_updateDerivedRates: "simulationStage (updateDerivedRates s) = simulationStage s"
  by (simp add: updateDerivedRates_def)

lemma checkStageTransitions_levels:
  "currentSebumLevel (snd (checkStageTransitions s)) = currentSebumLevel s"
  "currentBacteriaLevel (snd (checkStageTransitions s)) = currentBacteriaLevel s"
  "currentInflammationLevel (snd (checkStageTransitions s)) = currentInflammationLevel s"
  "currentNeutrophilLevel (snd (checkStageTransitions s)) = currentNeutrophilLevel s"
  "currentPusLevel (snd (checkStageTransitions s)) = currentPusLevel s"
  "currentMedicationLevel (snd (checkStageTransitions s)) = currentMedicationLevel s"
  "healingProgress (snd (checkStageTransitions s)) = healingProgress s"
  "simulationTime (snd (checkStageTransitions s)) = simulationTime s"
  by (simp_all add: checkStageTransitions_def)

subsection \<open>The rupture branch of the stage machine\<close>

lemma checkStageTransitions_rupture:
  "simulationStage s = ''rupture'' \<Longrightarrow>
   simulationStage (snd (checkStageTransitions s)) =
     (if healingProgress s > HEALING_THRESHOLD then ''healing''
      else if currentBacteriaLevel s > BACTERIA_THRESHOLD \<or>
              currentInflammationLevel s > BACTERIA_THRESHOLD then ''worsening''
      else ''rupture'')"
  by (simp add: checkStageTransitions_def)

lemma updateParameters_keeps_rupture:
  assumes "simulationStage s = ''rupture''"
  shows "simulationStage (updateParameters s) = ''rupture''"
  unfolding updateParameters_def
  by (subst stage_updateBiologicalState) (simp add: stage_updateDerivedRates assms)

text \<open>
  C7. In stage rupture the transition check moves to healing when the healing progress
  exceeds HEALING_THRESHOLD (30); otherwise to worsening when the bacteria level or the
  inflammation level exceeds BACTERIA_THRESHOLD (60), the inflammation level being compared
  with the bacteria constant and not with INFLAMMATION_THRESHOLD (40); otherwise the stage
  stays rupture. The same holds for a whole tick that starts in rupture, read on the levels
  the tick leaves, since the integration keeps the stage rupture and the check keeps the
  levels.
\<close>

theorem rupture_transition:
  assumes "simulationStage s = ''rupture''"
  shows "simulationStage (snd (checkStageTransitions s)) =
           (if healingProgress s > 30 then ''healing''
            else if currentBacteriaLevel s > 60 \<or> currentInflammationLevel s > 60
            then ''worsening'' else ''rupture'') \<and>
         HEALING_THRESHOLD = 30 \<and> BACTERIA_THRESHOLD = 60 \<and> INFLAMMATION_THRESHOLD = 40 \<and>
         simulationStage (snd (update s)) =
           (if healingProgress (snd (update s)) > 30 then ''healing''
            else if currentBacteriaLevel (snd (update s)) > 60 \<or>
                    currentInflammationLevel (snd (update s)) > 60
            then ''worsening'' else ''rupture'')"
proof -
  have check: "simulationStage (snd (checkStageTransitions s)) =
      (if healingProgress s > 30 then ''healing''
       else if currentBacteriaLevel s > 60 \<or> currentInflammationLevel s > 60
       then ''worsening'' else ''rupture'')"
    using checkStageTransitions_rupture [OF assms] by (simp only: thresholds)
  have tick: "simulationStage (snd (update s)) =
      (if healingProgress (snd (update s)) > 30 then ''healing''
       else if currentBacteriaLevel (snd (update s)) > 60 \<or>
               currentInflammationLevel (snd (update s)) > 60
       then ''worsening'' else ''rupture'')"
    using checkStageTransitions_rupture [OF updateParameters_keeps_rupture [OF assms]]
    by (simp only: update_def checkStageTransitions_levels thresholds)
  show ?thesis
    using check tick by (simp add: thresholds)
qed

text \<open>
  The check at a state in rupture with inflammation 50 (above 40, not above 60), no
  bacteria and no healing progress: the stage stays rupture.
\<close>

theorem rupture_transition_witness:
  "simulationStage (new_AcneSimulation\<lparr> simulationStage := ''rupture'',
       currentInflammationLevel := 50 \<rparr>) = ''rupture'' \<and>
   simulationStage (snd (checkStageTransitions
     (new_AcneSimulation\<lparr> simulationStage := ''rupture'',
        currentInflammationLevel := 50 \<rparr>))) = ''rupture''"
  using rupture_transition [of "new_AcneSimulation\<lparr> simulationStage := ''rupture'',
       currentInflammationLevel := 50 \<rparr>"]
  by (simp add: new_AcneSimulation_def)

subsection \<open>Humidity and friction\<close>

lemma integrateSebum_unused:
  "integrateSebum dt (s\<lparr> humidityValue := h, frictionValue := f,
       baselineInflammation := b, humidityEffect := e \<rparr>) =
   (integrateSebum dt s)\<lparr> humidityValue := h, frictionValue := f,
       baselineInflammation := b, humidityEffect := e \<rparr>"
  by (simp add: integrateSebum_def Let_def)

lemma integrateBacteria_unused:
  "integrateBacteria dt (s\<lparr> humidityValue := h, frictionValue := f,
       baselineInflammation := b, humidityEffect := e \<rparr>) =
   (integrateBacteria dt s)\<lparr> humidityValue := h, frictionValue := f,
       baselineInflammation := b, humidityEffect := e \<rparr>"
  by (simp add: integrateBacteria_def Let_def)

lemma integrateInflammation_unused:
  "integrateInflammation dt (s\<lparr> humidityValue := h, frictionValue := f,
       baselineInflammation := b, humidityEffect := e \<rparr>) =
   (integrateInflammation dt s)\<lparr> humidityValue := h, frictionValue := f,
       baselineInflammation := b, humidityEffect := e \<rparr>"
  by (simp add: integrateInflammation_def Let_def)

lemma integratePus_unused:
  "integratePus dt (s\<lparr> humidityValue := h, frictionValue := f,
       baselineInflammation := b, humidityEffect := e \<rparr>) =
   (integratePus dt s)\<lparr> humidityValue := h, frictionValue := f,
       baselineInflammation := b, humidityEffect := e \<rparr>"
  by (auto simp add: integratePus_def Let_def)

lemma integrateHealing_unused:
  "integrateHealing dt (s\<lparr> humidityValue := h, frictionValue := f,
       baselineInflammation := b, humidityEffect := e \<rparr>) =
   (integrateHealing dt s)\<lparr> humidityValue := h, frictionValue := f,
       baselineInflammation := b, humidityEffect := e \<rparr>"
  by (simp add: integrateHealing_def Let_def)

lemma logPeriodically_unused:
  "logPeriodically (s\<lparr> humidityValue := h, frictionValue := f,
       baselineInflammation := b, humidityEffect := e \<rparr>) =
   (logPeriodically s)\<lparr> humidityValue := h, frictionValue := f,
       baselineInflammation := b, humidityEffect := e \<rparr>"
  by (simp add: logPeriodically_def Let_def)

lemma updateBiologicalState_unused:
  "updateBiologicalState dt (s\<lparr> humidityValue := h, frictionValue := f,
       baselineInflammation := b, humidityEffect := e \<rparr>) =
   (updateBiologicalState dt s)\<lparr> humidityValue := h, frictionValue := f,
       baselineInflammation := b, humidityEffect := e \<rparr>"
  unfolding updateBiologicalState_def
  by (simp only: integrateSebum_unused integrateBacteria_unused integrateInflammation_unused
      integratePus_unused integrateHealing_unused logPeriodically_unused)

lemma checkStageTransitions_unused:
  "checkStageTransitions (s\<lparr> humidityValue := h, frictionValue := f,
       baselineInflammation := b, humidityEffect := e \<rparr>) =
   (fst (checkStageTransitions s),
    (snd (checkStageTransitions s))\<lparr> humidityValue := h, frictionValue := f,
       baselineInflammation := b, humidityEffect := e \<rparr>)"
  by (simp add: checkStageTransitions_def)

lemma updateDerivedRates_unused:
  "updateDerivedRates (s\<lparr> humidityValue := h, frictionValue := f, simulationTime := t \<rparr>) =
   (updateDerivedRates (s\<lparr> simulationTime := t \<rparr>))\<lparr> humidityValue := h, frictionValue := f,
       baselineInflammation := Some (if f > 300 then (f - 300) / 1400 else 0),
       humidityEffect := Some (if h > 600 then 1 + (h - 600) / 800 else 1) \<rparr>"
  by (simp add: updateDerivedRates_def)

lemma update_unused:
  "update (s\<lparr> humidityValue := h, frictionValue := f \<rparr>) =
   (fst (update s),
    (snd (update s))\<lparr> humidityValue := h, frictionValue := f,
       baselineInflammation := Some (if f > 300 then (f - 300) / 1400 else 0),
       humidityEffect := Some (if h > 600 then 1 + (h - 600) / 800 else 1) \<rparr>)"
  by (simp add: update_def updateParameters_def updateDerivedRates_unused
      updateBiologicalState_unused checkStageTransitions_unused)

text \<open>
  C10. Two instances that differ only in the humidity and friction parameters (here
  \<open>s\<close> and \<open>s\<close> with the two parameters replaced by any \<open>h\<close> and \<open>f\<close>) leave a tick with
  the same completion, the same six levels, the same healing progress, the same stage and
  the same simulation time: the derived \<open>humidityEffect\<close> and \<open>baselineInflammation\<close> are
  stored and never read.
\<close>

theorem humidity_friction_no_effect:
  "fst (update (s\<lparr> humidityValue := h, frictionValue := f \<rparr>)) = fst (update s) \<and>
   currentSebumLevel (snd (update (s\<lparr> humidityValue := h, frictionValue := f \<rparr>))) =
     currentSebumLevel (snd (update s)) \<and>
   currentBacteriaLevel (snd (update (s\<lparr> humidityValue := h, frictionValue := f \<rparr>))) =
     currentBacteriaLevel (snd (update s)) \<and>
   currentInflammationLevel (snd (update (s\<lparr> humidityValue := h, frictionValue := f \<rparr>))) =
     currentInflammationLevel (snd (update s)) \<and>
   currentNeutrophilLevel (snd (update (s\<lparr> humidityValue := h, frictionValue := f \<rparr>))) =
     currentNeutrophilLevel (snd (update s)) \<and>
   currentPusLevel (snd (update (s\<lparr> humidityValue := h, frictionValue := f \<rparr>))) =
     currentPusLevel (snd (update s)) \<and>
   currentMedicationLevel (snd (update (s\<lparr> humidityValue := h, frictionValue := f \<rparr>))) =
     currentMedicationLevel (snd (update s)) \<and>
   healingProgress (snd (update (s\<lparr> humidityValue := h, frictionValue := f \<rparr>))) =
     healingProgress (snd (update s)) \<and>
   simulationStage (snd (update (s\<lparr> humidityValue := h, frictionValue := f \<rparr>))) =
     simulationStage (snd (update s)) \<and>
   simulationTime (snd (update (s\<lparr> humidityValue := h, frictionValue := f \<rparr>))) =
     simulationTime (snd (update s))"
  by (simp add: update_unused)

subsection \<open>The promotion to resolved inside the integration step\<close>





subsection \<open>Setting a stage by name\<close>

lemma stage_cases:
  obtains "st = ''incubation''" | "st = ''comedone''" | "st = ''papule''" | "st = ''pustule''"
    | "st = ''rupture''" | "st = ''healing''" | "st = ''worsening''" | "st = ''resolved''"
    | "st \<notin> set validStages"
  unfolding validStages_def by auto

lemma stage_resetStageProgress: "simulationStage (resetStageProgress s) = simulationStage s"
  by (simp add: resetStageProgress_def)

lemma resetStageProgress_frame:
  "resetStageProgress s =
     s\<lparr> currentBacteriaLevel := currentBacteriaLevel (resetStageProgress s),
        currentInflammationLevel := currentInflammationLevel (resetStageProgress s),
        currentPusLevel := currentPusLevel (resetStageProgress s),
        healingProgress := healingProgress (resetStageProgress s) \<rparr>"
  by (simp add: resetStageProgress_def)

lemma resetStageProgress_idem:
  "resetStageProgress (resetStageProgress s) = resetStageProgress s"
  by (cases rule: stage_cases [of "simulationStage s"])
     (simp_all add: resetStageProgress_def validStages_def)

lemma resetStageProgress_seed:
  "currentBacteriaLevel (resetStageProgress (s\<lparr> simulationStage := st \<rparr>)) =
     currentBacteriaLevel (resetStageProgress (s'\<lparr> simulationStage := st \<rparr>)) \<or>
   currentBacteriaLevel (resetStageProgress (s\<lparr> simulationStage := st \<rparr>)) =
     currentBacteriaLevel s \<and>
   currentBacteriaLevel (resetStageProgress (s'\<lparr> simulationStage := st \<rparr>)) =
     currentBacteriaLevel s'"
  "currentInflammationLevel (resetStageProgress (s\<lparr> simulationStage := st \<rparr>)) =
     currentInflammationLevel (resetStageProgress (s'\<lparr> simulationStage := st \<rparr>)) \<or>
   currentInflammationLevel (resetStageProgress (s\<lparr> simulationStage := st \<rparr>)) =
     currentInflammationLevel s \<and>
   currentInflammationLevel (resetStageProgress (s'\<lparr> simulationStage := st \<rparr>)) =
     currentInflammationLevel s'"
  "currentPusLevel (resetStageProgress (s\<lparr> simulationStage := st \<rparr>)) =
     currentPusLevel (resetStageProgress (s'\<lparr> simulationStage := st \<rparr>)) \<or>
   currentPusLevel (resetStageProgress (s\<lparr> simulationStage := st \<rparr>)) =
     currentPusLevel s \<and>
   currentPusLevel (resetStageProgress (s'\<lparr> simulationStage := st \<rparr>)) =
     currentPusLevel s'"
  "healingProgress (resetStageProgress (s\<lparr> simulationStage := st \<rparr>)) =
     healingProgress (resetStageProgress (s'\<lparr> simulationStage := st \<rparr>)) \<or>
   healingProgress (resetStageProgress (s\<lparr> simulationStage := st \<rparr>)) =
     healingProgress s \<and>
   healingProgress (resetStageProgress (s'\<lparr> simulationStage := st \<rparr>)) =
     healingProgress s'"
  by (cases rule: stage_cases [of st]; simp add: resetStageProgress_def validStages_def)+

text \<open>What \<open>setStage\<close> leaves for each of the eight names, whatever the instance was.\<close>

lemma setStage_seeds:
  "setStage ''incubation'' s =
     (None, s\<lparr> simulationStage := ''incubation'', currentBacteriaLevel := 0,
               currentInflammationLevel := 0 \<rparr>)"
  "setStage ''comedone'' s =
     (None, s\<lparr> simulationStage := ''comedone'', currentBacteriaLevel := 48,
               currentInflammationLevel := 32 \<rparr>)"
  "setStage ''papule'' s =
     (None, s\<lparr> simulationStage := ''papule'', currentInflammationLevel := 32,
               currentPusLevel := 0 \<rparr>)"
  "setStage ''pustule'' s =
     (None, s\<lparr> simulationStage := ''pustule'', currentPusLevel := 56 \<rparr>)"
  "setStage ''rupture'' s =
     (None, s\<lparr> simulationStage := ''rupture'', currentPusLevel := 72,
               healingProgress := 0 \<rparr>)"
  "setStage ''healing'' s =
     (None, s\<lparr> simulationStage := ''healing'', healingProgress := 24 \<rparr>)"
  "setStage ''worsening'' s =
     (None, s\<lparr> simulationStage := ''worsening'', currentBacteriaLevel := 48,
               currentInflammationLevel := 32 \<rparr>)"
  "setStage ''resolved'' s =
     (None, s\<lparr> simulationStage := ''resolved'', healingProgress := 100 \<rparr>)"
  by (simp_all add: setStage_def validStages_def resetStageProgress_def thresholds)

lemma seed_values:
  "BACTERIA_THRESHOLD * 0.8 = 48" "INFLAMMATION_THRESHOLD * 0.8 = 32"
  "PUS_THRESHOLD * 0.8 = 56" "RUPTURE_THRESHOLD * 0.8 = 72" "HEALING_THRESHOLD * 0.8 = 24"
  by (simp_all add: thresholds)

text \<open>
  C5. A string that is not one of the eight stage names is rejected: \<open>setStage\<close> reports
  it on the error console and returns the instance as it was. A valid name becomes the
  stage, and \<open>resetStageProgress\<close> then reseeds the levels: only the bacteria,
  inflammation and pus levels and the healing progress can change, each of them is either
  left as it was or set to a value that is the same whatever the instance was (so it
  depends on the stage alone), and setting the same stage again changes nothing. The
  seeds are written out for each stage: incubation sets bacteria and inflammation to 0;
  comedone and worsening set bacteria to 48 and inflammation to 32 (0.8 times their
  thresholds); papule sets inflammation to 32 and pus to 0; pustule sets pus to 56;
  rupture sets pus to 72 and the healing progress to 0; healing sets the healing progress
  to 24; resolved sets it to 100. Nothing else of the instance changes.
\<close>

theorem setStage_rejects_or_reseeds:
  "set validStages = {''incubation'', ''comedone'', ''papule'', ''pustule'',
                      ''rupture'', ''healing'', ''worsening'', ''resolved''} \<and>
   (stage \<notin> set validStages \<longrightarrow>
      setStage stage s = (Some (''Invalid stage: '' @ stage), s)) \<and>
   (stage \<in> set validStages \<longrightarrow>
      setStage stage s = (None, resetStageProgress (s\<lparr> simulationStage := stage \<rparr>)) \<and>
      simulationStage (snd (setStage stage s)) = stage \<and>
      snd (setStage stage s) =
        s\<lparr> simulationStage := stage,
           currentBacteriaLevel := currentBacteriaLevel (snd (setStage stage s)),
           currentInflammationLevel := currentInflammationLevel (snd (setStage stage s)),
           currentPusLevel := currentPusLevel (snd (setStage stage s)),
           healingProgress := healingProgress (snd (setStage stage s)) \<rparr> \<and>
      (currentBacteriaLevel (snd (setStage stage s)) =
         currentBacteriaLevel (snd (setStage stage s')) \<or>
       currentBacteriaLevel (snd (setStage stage s)) = currentBacteriaLevel s \<and>
       currentBacteriaLevel (snd (setStage stage s')) = currentBacteriaLevel s') \<and>
      (currentInflammationLevel (snd (setStage stage s)) =
         currentInflammationLevel (snd (setStage stage s')) \<or>
       currentInflammationLevel (snd (setStage stage s)) = currentInflammationLevel s \<and>
       currentInflammationLevel (snd (setStage stage s')) = currentInflammationLevel s') \<and>
      (currentPusLevel (snd (setStage stage s)) =
         currentPusLevel (snd (setStage stage s')) \<or>
       currentPusLevel (snd (setStage stage s)) = currentPusLevel s \<and>
       currentPusLevel (snd (setStage stage s')) = currentPusLevel s') \<and>
      (healingProgress (snd (setStage stage s)) =
         healingProgress (snd (setStage stage s')) \<or>
       healingProgress (snd (setStage stage s)) = healingProgress s \<and>
       healingProgress (snd (setStage stage s')) = healingProgress s') \<and>
      snd (setStage stage (snd (setStage stage s))) = snd (setStage stage s)) \<and>
   setStage ''incubation'' s =
     (None, s\<lparr> simulationStage := ''incubation'', currentBacteriaLevel := 0,
               currentInflammationLevel := 0 \<rparr>) \<and>
   setStage ''comedone'' s =
     (None, s\<lparr> simulationStage := ''comedone'', currentBacteriaLevel := 48,
               currentInflammationLevel := 32 \<rparr>) \<and>
   setStage ''papule'' s =
     (None, s\<lparr> simulationStage := ''papule'', currentInflammationLevel := 32,
               currentPusLevel := 0 \<rparr>) \<and>
   setStage ''pustule'' s =
     (None, s\<lparr> simulationStage := ''pustule'', currentPusLevel := 56 \<rparr>) \<and>
   setStage ''rupture'' s =
     (None, s\<lparr> simulationStage := ''rupture'', currentPusLevel := 72,
               healingProgress := 0 \<rparr>) \<and>
   setStage ''healing'' s =
     (None, s\<lparr> simulationStage := ''healing'', healingProgress := 24 \<rparr>) \<and>
   setStage ''worsening'' s =
     (None, s\<lparr> simulationStage := ''worsening'', currentBacteriaLevel := 48,
               currentInflammationLevel := 32 \<rparr>) \<and>
   setStage ''resolved'' s =
     (None, s\<lparr> simulationStage := ''resolved'', healingProgress := 100 \<rparr>) \<and>
   BACTERIA_THRESHOLD * 0.8 = 48 \<and> INFLAMMATION_THRESHOLD * 0.8 = 32 \<and>
   PUS_THRESHOLD * 0.8 = 56 \<and> RUPTURE_THRESHOLD * 0.8 = 72 \<and>
   HEALING_THRESHOLD * 0.8 = 24"
proof -
  have names: "set validStages = {''incubation'', ''comedone'', ''papule'', ''pustule'',
                      ''rupture'', ''healing'', ''worsening'', ''resolved''}"
    by (simp add: validStages_def)
  have invalid: "setStage stage s = (Some (''Invalid stage: '' @ stage), s)"
    if "stage \<notin> set validStages"
    using that by (simp add: setStage_def)
  have valid: "setStage stage x = (None, resetStageProgress (x\<lparr> simulationStage := stage \<rparr>))"
    if "stage \<in> set validStages" for x
    using that by (simp add: setStage_def)
  have frame: "resetStageProgress (s\<lparr> simulationStage := stage \<rparr>) =
      s\<lparr> simulationStage := stage,
         currentBacteriaLevel :=
           currentBacteriaLevel (resetStageProgress (s\<lparr> simulationStage := stage \<rparr>)),
         currentInflammationLevel :=
           currentInflammationLevel (resetStageProgress (s\<lparr> simulationStage := stage \<rparr>)),
         currentPusLevel :=
           currentPusLevel (resetStageProgress (s\<lparr> simulationStage := stage \<rparr>)),
         healingProgress :=
           healingProgress (resetStageProgress (s\<lparr> simulationStage := stage \<rparr>)) \<rparr>"
    by (subst resetStageProgress_frame) simp
  have again: "resetStageProgress
      ((resetStageProgress (s\<lparr> simulationStage := stage \<rparr>))\<lparr> simulationStage := stage \<rparr>) =
      resetStageProgress (s\<lparr> simulationStage := stage \<rparr>)"
  proof -
    have self: "x\<lparr> simulationStage := simulationStage x \<rparr> = x" for x :: AcneSimulation
      by simp
    have "(resetStageProgress (s\<lparr> simulationStage := stage \<rparr>))\<lparr> simulationStage := stage \<rparr> =
        resetStageProgress (s\<lparr> simulationStage := stage \<rparr>)"
      using self [of "resetStageProgress (s\<lparr> simulationStage := stage \<rparr>)"]
      by (simp add: stage_resetStageProgress)
    then show ?thesis
      by (simp only: resetStageProgress_idem)
  qed
  have general:
    "(stage \<notin> set validStages \<longrightarrow>
        setStage stage s = (Some (''Invalid stage: '' @ stage), s)) \<and>
     (stage \<in> set validStages \<longrightarrow>
        setStage stage s = (None, resetStageProgress (s\<lparr> simulationStage := stage \<rparr>)) \<and>
        simulationStage (snd (setStage stage s)) = stage \<and>
        snd (setStage stage s) =
          s\<lparr> simulationStage := stage,
             currentBacteriaLevel := currentBacteriaLevel (snd (setStage stage s)),
             currentInflammationLevel := currentInflammationLevel (snd (setStage stage s)),
             currentPusLevel := currentPusLevel (snd (setStage stage s)),
             healingProgress := healingProgress (snd (setStage stage s)) \<rparr> \<and>
        (currentBacteriaLevel (snd (setStage stage s)) =
           currentBacteriaLevel (snd (setStage stage s')) \<or>
         currentBacteriaLevel (snd (setStage stage s)) = currentBacteriaLevel s \<and>
         currentBacteriaLevel (snd (setStage stage s')) = currentBacteriaLevel s') \<and>
        (currentInflammationLevel (snd (setStage stage s)) =
           currentInflammationLevel (snd (setStage stage s')) \<or>
         currentInflammationLevel (snd (setStage stage s)) = currentInflammationLevel s \<and>
         currentInflammationLevel (snd (setStage stage s')) = currentInflammationLevel s') \<and>
        (currentPusLevel (snd (setStage stage s)) =
           currentPusLevel (snd (setStage stage s')) \<or>
         currentPusLevel (snd (setStage stage s)) = currentPusLevel s \<and>
         currentPusLevel (snd (setStage stage s')) = currentPusLevel s') \<and>
        (healingProgress (snd (setStage stage s)) =
           healingProgress (snd (setStage stage s')) \<or>
         healingProgress (snd (setStage stage s)) = healingProgress s \<and>
         healingProgress (snd (setStage stage s')) = healingProgress s') \<and>
        snd (setStage stage (snd (setStage stage s))) = snd (setStage stage s))"
  proof (cases "stage \<in> set validStages")
    case False
    then show ?thesis
      using invalid by simp
  next
    case True
    show ?thesis
      using True frame again
        resetStageProgress_seed [where s = s and st = stage and s' = s']
        stage_resetStageProgress [of "s\<lparr> simulationStage := stage \<rparr>"]
      by (simp only: valid [OF True] fst_conv snd_conv) simp
  qed
  show ?thesis
    by (intro conjI names conjunct1 [OF general] conjunct2 [OF general]
        setStage_seeds seed_values)
qed

text \<open>
  On a fresh instance the name \<open>acne\<close> is rejected and nothing changes. The names
  \<open>papule\<close>, \<open>rupture\<close> and \<open>resolved\<close> are accepted; the levels they seed are read off
  an instance that held other values before (inflammation 50, pus 90, healing progress 10),
  and a second, fresh instance gets the same seeds.
\<close>

theorem setStage_rejects_or_reseeds_witness:
  "''acne'' \<notin> set validStages \<and>
   setStage ''acne'' new_AcneSimulation = (Some ''Invalid stage: acne'', new_AcneSimulation) \<and>
   ''papule'' \<in> set validStages \<and>
   simulationStage (snd (setStage ''papule''
     (new_AcneSimulation\<lparr> currentInflammationLevel := 50, currentPusLevel := 90,
        healingProgress := 10 \<rparr>))) = ''papule'' \<and>
   currentInflammationLevel (snd (setStage ''papule''
     (new_AcneSimulation\<lparr> currentInflammationLevel := 50, currentPusLevel := 90,
        healingProgress := 10 \<rparr>))) = 32 \<and>
   currentPusLevel (snd (setStage ''papule''
     (new_AcneSimulation\<lparr> currentInflammationLevel := 50, currentPusLevel := 90,
        healingProgress := 10 \<rparr>))) = 0 \<and>
   healingProgress (snd (setStage ''papule''
     (new_AcneSimulation\<lparr> currentInflammationLevel := 50, currentPusLevel := 90,
        healingProgress := 10 \<rparr>))) = 10 \<and>
   currentInflammationLevel (snd (setStage ''papule'' new_AcneSimulation)) = 32 \<and>
   currentPusLevel (snd (setStage ''rupture''
     (new_AcneSimulation\<lparr> currentInflammationLevel := 50, currentPusLevel := 90,
        healingProgress := 10 \<rparr>))) = 72 \<and>
   healingProgress (snd (setStage ''rupture''
     (new_AcneSimulation\<lparr> currentInflammationLevel := 50, currentPusLevel := 90,
        healingProgress := 10 \<rparr>))) = 0 \<and>
   healingProgress (snd (setStage ''resolved''
     (new_AcneSimulation\<lparr> currentInflammationLevel := 50, currentPusLevel := 90,
        healingProgress := 10 \<rparr>))) = 100"
proof -
  let ?w = "new_AcneSimulation\<lparr> currentInflammationLevel := 50, currentPusLevel := 90,
              healingProgress := 10 \<rparr>"
  note acne = setStage_rejects_or_reseeds [of "''acne''" new_AcneSimulation new_AcneSimulation]
  note used = setStage_rejects_or_reseeds [of "''papule''" ?w new_AcneSimulation]
  have names: "''acne'' \<notin> set validStages" "''papule'' \<in> set validStages"
    by (simp_all add: validStages_def)
  have rejected:
    "setStage ''acne'' new_AcneSimulation = (Some ''Invalid stage: acne'', new_AcneSimulation)"
    using acne names(1) by simp
  have fresh: "setStage ''papule'' new_AcneSimulation =
      (None, new_AcneSimulation\<lparr> simulationStage := ''papule'',
         currentInflammationLevel := 32, currentPusLevel := 0 \<rparr>)"
    using acne by blast
  have papule: "setStage ''papule'' ?w =
      (None, ?w\<lparr> simulationStage := ''papule'', currentInflammationLevel := 32,
         currentPusLevel := 0 \<rparr>)"
    using used by blast
  have rupture: "setStage ''rupture'' ?w =
      (None, ?w\<lparr> simulationStage := ''rupture'', currentPusLevel := 72,
         healingProgress := 0 \<rparr>)"
    using used by blast
  have resolved: "setStage ''resolved'' ?w =
      (None, ?w\<lparr> simulationStage := ''resolved'', healingProgress := 100 \<rparr>)"
    using used by blast
  show ?thesis
    by (simp only: rejected fresh papule rupture resolved names snd_conv) simp
qed

subsection \<open>Manual advance\<close>

lemma advance_incubation:
  "simulationStage s = ''incubation'' \<Longrightarrow>
   advanceToNextStage s = s\<lparr> simulationStage := ''comedone'', currentSebumLevel := 70 \<rparr>"
  by (simp add: advanceToNextStage_def thresholds)

lemma advance_comedone:
  "simulationStage s = ''comedone'' \<Longrightarrow>
   advanceToNextStage s = s\<lparr> simulationStage := ''papule'', currentInflammationLevel := 40,
     currentBacteriaLevel := max (currentBacteriaLevel s) 65 \<rparr>"
  by (simp add: advanceToNextStage_def thresholds)

lemma advance_papule:
  "simulationStage s = ''papule'' \<Longrightarrow>
   advanceToNextStage s = s\<lparr> simulationStage := ''pustule'', currentPusLevel := 70 \<rparr>"
  by (simp add: advanceToNextStage_def thresholds)

lemma advance_pustule:
  "simulationStage s = ''pustule'' \<Longrightarrow>
   advanceToNextStage s = s\<lparr> simulationStage := ''rupture'', currentPusLevel := 90,
     healingProgress := 0 \<rparr>"
  by (simp add: advanceToNextStage_def thresholds)

lemma advance_rupture:
  "simulationStage s = ''rupture'' \<Longrightarrow>
   advanceToNextStage s = s\<lparr> simulationStage := ''healing'', healingProgress := 30 \<rparr>"
  by (simp add: advanceToNextStage_def thresholds)

lemma advance_healing:
  "simulationStage s = ''healing'' \<Longrightarrow>
   advanceToNextStage s = s\<lparr> simulationStage := ''resolved'', healingProgress := 80,
     currentInflammationLevel := 0, currentPusLevel := 0 \<rparr>"
  by (simp add: advanceToNextStage_def thresholds)

lemma advance_resolved:
  "simulationStage s = ''resolved'' \<Longrightarrow>
   advanceToNextStage s = s\<lparr> simulationStage := ''incubation'', currentSebumLevel := 20,
     currentBacteriaLevel := 0, currentInflammationLevel := 0, currentNeutrophilLevel := 0,
     currentPusLevel := 0, healingProgress := 0 \<rparr>"
  by (simp add: advanceToNextStage_def thresholds)

lemmas advance_steps = advance_incubation advance_comedone advance_papule advance_pustule
  advance_rupture advance_healing advance_resolved

text \<open>The instance after each of eight consecutive calls that start in incubation.\<close>

lemma advance_trace:
  assumes "simulationStage s = ''incubation''"
  shows "(advanceToNextStage ^^ 1) s =
           s\<lparr> simulationStage := ''comedone'', currentSebumLevel := 70 \<rparr>"
    and "(advanceToNextStage ^^ 2) s =
           s\<lparr> simulationStage := ''papule'', currentSebumLevel := 70,
              currentInflammationLevel := 40,
              currentBacteriaLevel := max (currentBacteriaLevel s) 65 \<rparr>"
    and "(advanceToNextStage ^^ 3) s =
           s\<lparr> simulationStage := ''pustule'', currentSebumLevel := 70,
              currentInflammationLevel := 40,
              currentBacteriaLevel := max (currentBacteriaLevel s) 65,
              currentPusLevel := 70 \<rparr>"
    and "(advanceToNextStage ^^ 4) s =
           s\<lparr> simulationStage := ''rupture'', currentSebumLevel := 70,
              currentInflammationLevel := 40,
              currentBacteriaLevel := max (currentBacteriaLevel s) 65,
              currentPusLevel := 90, healingProgress := 0 \<rparr>"
    and "(advanceToNextStage ^^ 5) s =
           s\<lparr> simulationStage := ''healing'', currentSebumLevel := 70,
              currentInflammationLevel := 40,
              currentBacteriaLevel := max (currentBacteriaLevel s) 65,
              currentPusLevel := 90, healingProgress := 30 \<rparr>"
    and "(advanceToNextStage ^^ 6) s =
           s\<lparr> simulationStage := ''resolved'', currentSebumLevel := 70,
              currentInflammationLevel := 0,
              currentBacteriaLevel := max (currentBacteriaLevel s) 65,
              currentPusLevel := 0, healingProgress := 80 \<rparr>"
    and "(advanceToNextStage ^^ 7) s =
           s\<lparr> simulationStage := ''incubation'', currentSebumLevel := 20,
              currentInflammationLevel := 0, currentBacteriaLevel := 0,
              currentNeutrophilLevel := 0, currentPusLevel := 0, healingProgress := 0 \<rparr>"
    and "(advanceToNextStage ^^ 8) s =
           s\<lparr> simulationStage := ''comedone'', currentSebumLevel := 70,
              currentInflammationLevel := 0, currentBacteriaLevel := 0,
              currentNeutrophilLevel := 0, currentPusLevel := 0, healingProgress := 0 \<rparr>"
  using assms by (simp_all add: eval_nat_numeral advance_steps)

lemma new_incubation: "simulationStage new_AcneSimulation = ''incubation''"
  by (simp add: new_AcneSimulation_def)

text \<open>
  C9, as the code has it. From any instance in incubation, eight consecutive calls of
  \<open>advanceToNextStage\<close> enter comedone, papule, pustule, rupture, healing, resolved,
  incubation and comedone again. Each call sets the governing level of the stage it enters
  to exactly the threshold: sebum 70 for comedone; inflammation 40 and bacteria at least 65
  for papule; pus 70 for pustule; pus 90 and healing progress 0 for rupture; healing
  progress 30 for healing; healing progress 80, inflammation 0 and pus 0 for resolved. The
  wrap to incubation resets sebum to 20 and bacteria, inflammation, neutrophils, pus and
  healing progress to 0, and leaves the medication level as it was.
\<close>

theorem advanceToNextStage_cycle:
  assumes "simulationStage s = ''incubation''"
  shows "map (\<lambda>n. simulationStage ((advanceToNextStage ^^ n) s)) [1, 2, 3, 4, 5, 6, 7, 8] =
           [''comedone'', ''papule'', ''pustule'', ''rupture'', ''healing'', ''resolved'',
            ''incubation'', ''comedone''] \<and>
         currentSebumLevel ((advanceToNextStage ^^ 1) s) = SEBUM_THRESHOLD \<and>
         currentInflammationLevel ((advanceToNextStage ^^ 2) s) = INFLAMMATION_THRESHOLD \<and>
         currentBacteriaLevel ((advanceToNextStage ^^ 2) s) \<ge> BACTERIA_THRESHOLD + 5 \<and>
         currentPusLevel ((advanceToNextStage ^^ 3) s) = PUS_THRESHOLD \<and>
         currentPusLevel ((advanceToNextStage ^^ 4) s) = RUPTURE_THRESHOLD \<and>
         healingProgress ((advanceToNextStage ^^ 4) s) = 0 \<and>
         healingProgress ((advanceToNextStage ^^ 5) s) = HEALING_THRESHOLD \<and>
         healingProgress ((advanceToNextStage ^^ 6) s) = RESOLVED_THRESHOLD \<and>
         currentInflammationLevel ((advanceToNextStage ^^ 6) s) = 0 \<and>
         currentPusLevel ((advanceToNextStage ^^ 6) s) = 0 \<and>
         currentSebumLevel ((advanceToNextStage ^^ 7) s) = 20 \<and>
         currentBacteriaLevel ((advanceToNextStage ^^ 7) s) = 0 \<and>
         currentInflammationLevel ((advanceToNextStage ^^ 7) s) = 0 \<and>
         currentNeutrophilLevel ((advanceToNextStage ^^ 7) s) = 0 \<and>
         currentPusLevel ((advanceToNextStage ^^ 7) s) = 0 \<and>
         healingProgress ((advanceToNextStage ^^ 7) s) = 0 \<and>
         currentMedicationLevel ((advanceToNextStage ^^ 7) s) = currentMedicationLevel s"
  by (simp only: advance_trace [OF assms] list.map) (simp add: thresholds)

theorem advanceToNextStage_cycle_witness:
  "simulationStage new_AcneSimulation = ''incubation'' \<and>
   map (\<lambda>n. simulationStage ((advanceToNextStage ^^ n) new_AcneSimulation))
     [1, 2, 3, 4, 5, 6, 7, 8] =
     [''comedone'', ''papule'', ''pustule'', ''rupture'', ''healing'', ''resolved'',
      ''incubation'', ''comedone''] \<and>
   currentBacteriaLevel ((advanceToNextStage ^^ 2) new_AcneSimulation) = 65"
  using advanceToNextStage_cycle [of new_AcneSimulation] advance_trace(2) [OF new_incubation]
  by (simp add: new_AcneSimulation_def)

text \<open>
  C9 as stated fails on the entry conditions, which are the guards of
  \<open>checkStageTransitions\<close>. After the first call on a fresh instance the stage is
  comedone while bacteria and inflammation are 0, so the guard into comedone (bacteria
  above 60 and inflammation above 40) is false, and the stage machine run from incubation
  on these levels stays in incubation. After the second call the stage is papule with
  inflammation exactly 40, which is not above 40: the machine run from comedone stays in
  comedone. The eighth call enters comedone again.
\<close>

theorem advanceToNextStage_entry_counterexample:
  "simulationStage (advanceToNextStage new_AcneSimulation) = ''comedone'' \<and>
   \<not> (currentBacteriaLevel (advanceToNextStage new_AcneSimulation) > BACTERIA_THRESHOLD \<and>
      currentInflammationLevel (advanceToNextStage new_AcneSimulation) >
        INFLAMMATION_THRESHOLD) \<and>
   simulationStage (snd (checkStageTransitions
     ((advanceToNextStage new_AcneSimulation)\<lparr> simulationStage := ''incubation'' \<rparr>))) =
     ''incubation'' \<and>
   simulationStage ((advanceToNextStage ^^ 2) new_AcneSimulation) = ''papule'' \<and>
   \<not> currentInflammationLevel ((advanceToNextStage ^^ 2) new_AcneSimulation) >
       INFLAMMATION_THRESHOLD \<and>
   simulationStage (snd (checkStageTransitions
     (((advanceToNextStage ^^ 2) new_AcneSimulation)\<lparr> simulationStage := ''comedone'' \<rparr>))) =
     ''comedone'' \<and>
   simulationStage ((advanceToNextStage ^^ 8) new_AcneSimulation) = ''comedone''"
  by (simp only: advance_trace [OF new_incubation] advance_incubation [OF new_incubation])
     (simp add: checkStageTransitions_def new_AcneSimulation_def thresholds)

subsection \<open>Ranges are kept by a tick\<close>

text \<open>The accelerator is 1 on a fresh instance, and its setter keeps it in [0.1, 10].\<close>

lemma setProgressionAccelerator_range:
  "0.1 \<le> progressionAccelerator (setProgressionAccelerator v s) \<and>
   progressionAccelerator (setProgressionAccelerator v s) \<le> 10 \<and>
   progressionAccelerator new_AcneSimulation = 1"
  by (simp add: setProgressionAccelerator_def new_AcneSimulation_def)

lemmas ranges = paramsInRange_def levelsInRange_def ratesNonneg_def

lemma integrateSebum_range:
  assumes "paramsInRange s" "ratesNonneg s" "levelsInRange s" "0 \<le> dt"
  shows "paramsInRange (integrateSebum dt s) \<and> ratesNonneg (integrateSebum dt s) \<and>
         levelsInRange (integrateSebum dt s) \<and>
         currentMedicationLevel (integrateSebum dt s) = currentMedicationLevel s"
proof -
  have "0 \<le> sebumRate s * (sebumValue s / 500) * dt"
    using assms by (simp add: ranges)
  then show ?thesis
    using assms by (simp add: integrateSebum_def Let_def ranges)
qed

lemma integrateBacteria_range:
  assumes "paramsInRange s" "ratesNonneg s" "levelsInRange s" "0 \<le> dt"
  shows "paramsInRange (integrateBacteria dt s) \<and> ratesNonneg (integrateBacteria dt s) \<and>
         levelsInRange (integrateBacteria dt s) \<and>
         currentMedicationLevel (integrateBacteria dt s) = currentMedicationLevel s"
proof -
  define g where "g = (if currentBacteriaLevel s > 0
               then currentBacteriaLevel s * bacteriaGrowthRate s * dt
               else bacteriaValue s / 100 * dt * 2.0)"
  define m where "m = (medicationValue s / 10000) * dt"
  define b where "b = (if medicationValue s > 0
      then max 0 (min 100 (currentBacteriaLevel s + g) - m)
      else min 100 (currentBacteriaLevel s + g))"
  have eq: "integrateBacteria dt s =
      (if simulationStage s \<noteq> ''incubation'' then s\<lparr> currentBacteriaLevel := b \<rparr> else s)"
    by (simp add: integrateBacteria_def Let_def b_def m_def g_def)
  have g: "0 \<le> g"
    unfolding g_def using assms by (auto simp: ranges intro!: mult_nonneg_nonneg)
  have m: "0 \<le> m"
    unfolding m_def using assms by (auto simp: ranges intro!: mult_nonneg_nonneg)
  have "0 \<le> currentBacteriaLevel s"
    using assms by (simp add: ranges)
  with g m have b: "0 \<le> b \<and> b \<le> 100"
    unfolding b_def by auto
  show ?thesis
    unfolding eq using assms b by (simp add: ranges)
qed

lemma integrateInflammation_range:
  assumes "paramsInRange s" "ratesNonneg s" "levelsInRange s" "0 \<le> dt"
  shows "paramsInRange (integrateInflammation dt s) \<and> ratesNonneg (integrateInflammation dt s) \<and>
         levelsInRange (integrateInflammation dt s) \<and>
         currentMedicationLevel (integrateInflammation dt s) = currentMedicationLevel s"
proof -
  define r where "r = ((max (currentBacteriaLevel s) 30 - 30) / 40) *
              (inflammationValue s / 500) * dt * progressionAccelerator s"
  have "0 \<le> max (currentBacteriaLevel s) 30 - 30" by simp
  then have r: "0 \<le> r"
    unfolding r_def using assms by (simp add: ranges)
  then have r2: "0 \<le> r * 2" by simp
  show ?thesis
    using assms r r2 unfolding integrateInflammation_def Let_def r_def [symmetric]
    by (simp add: ranges)
qed

lemma integratePus_range:
  assumes "paramsInRange s" "ratesNonneg s" "levelsInRange s" "0 \<le> dt"
  shows "paramsInRange (integratePus dt s) \<and> ratesNonneg (integratePus dt s) \<and>
         levelsInRange (integratePus dt s) \<and>
         currentMedicationLevel (integratePus dt s) = currentMedicationLevel s"
proof -
  have "0 \<le> (currentNeutrophilLevel s / 80) * dt * progressionAccelerator s"
    using assms by (simp add: ranges)
  then show ?thesis
    using assms by (simp add: integratePus_def Let_def ranges)
qed

lemma integrateHealing_range:
  assumes "paramsInRange s" "ratesNonneg s" "levelsInRange s" "0 \<le> dt"
  shows "paramsInRange (integrateHealing dt s) \<and> ratesNonneg (integrateHealing dt s) \<and>
         levelsInRange (integrateHealing dt s) \<and>
         currentMedicationLevel (integrateHealing dt s) = currentMedicationLevel s"
proof -
  define r where "r = (healingValue s / 500) * dt"
  have r: "0 \<le> r"
    unfolding r_def using assms by (simp add: ranges)
  show ?thesis
    using assms r unfolding integrateHealing_def Let_def r_def [symmetric]
    by (simp add: ranges)
qed

lemma logPeriodically_range:
  assumes "paramsInRange s" "ratesNonneg s" "levelsInRange s"
  shows "paramsInRange (logPeriodically s) \<and> ratesNonneg (logPeriodically s) \<and>
         levelsInRange (logPeriodically s) \<and>
         currentMedicationLevel (logPeriodically s) = currentMedicationLevel s"
  using assms by (simp add: logPeriodically_def ranges)


lemma medicationValue_blocks:
  "medicationValue (integrateSebum dt s) = medicationValue s"
  "medicationValue (integrateBacteria dt s) = medicationValue s"
  "medicationValue (integrateInflammation dt s) = medicationValue s"
  "medicationValue (integratePus dt s) = medicationValue s"
  "medicationValue (integrateHealing dt s) = medicationValue s"
  "medicationValue (logPeriodically s) = medicationValue s"
  "medicationValue (updateDerivedRates s) = medicationValue s"
  by (simp_all add: integrateSebum_def integrateBacteria_def integrateInflammation_def
      integratePus_def integrateHealing_def logPeriodically_def updateDerivedRates_def Let_def)

lemma updateBiologicalState_range:
  assumes "paramsInRange s" "ratesNonneg s" "levelsInRange s" "0 \<le> dt"
  shows "paramsInRange (updateBiologicalState dt s) \<and> ratesNonneg (updateBiologicalState dt s) \<and>
         levelsInRange (updateBiologicalState dt s) \<and>
         currentMedicationLevel (updateBiologicalState dt s) = currentMedicationLevel s"
proof -
  note d = \<open>0 \<le> dt\<close>
  have 1: "paramsInRange (integrateSebum dt s) \<and> ratesNonneg (integrateSebum dt s) \<and>
         levelsInRange (integrateSebum dt s) \<and>
         currentMedicationLevel (integrateSebum dt s) = currentMedicationLevel s"
    using integrateSebum_range [OF assms] .
  let ?s2 = "integrateBacteria dt (integrateSebum dt s)"
  have 2: "paramsInRange ?s2 \<and> ratesNonneg ?s2 \<and> levelsInRange ?s2 \<and>
         currentMedicationLevel ?s2 = currentMedicationLevel s"
    using integrateBacteria_range [of "integrateSebum dt s" dt] 1 d by simp
  let ?s3 = "integrateInflammation dt ?s2"
  have 3: "paramsInRange ?s3 \<and> ratesNonneg ?s3 \<and> levelsInRange ?s3 \<and>
         currentMedicationLevel ?s3 = currentMedicationLevel s"
    using integrateInflammation_range [of ?s2 dt] 2 d by simp
  let ?s4 = "integratePus dt ?s3"
  have 4: "paramsInRange ?s4 \<and> ratesNonneg ?s4 \<and> levelsInRange ?s4 \<and>
         currentMedicationLevel ?s4 = currentMedicationLevel s"
    using integratePus_range [of ?s3 dt] 3 d by simp
  let ?s5 = "integrateHealing dt ?s4"
  have 5: "paramsInRange ?s5 \<and> ratesNonneg ?s5 \<and> levelsInRange ?s5 \<and>
         currentMedicationLevel ?s5 = currentMedicationLevel s"
    using integrateHealing_range [of ?s4 dt] 4 d by simp
  show ?thesis
    unfolding updateBiologicalState_def
    using logPeriodically_range [of ?s5] 5 by simp
qed

lemma updateDerivedRates_range:
  assumes "paramsInRange s" "0 \<le> progressionAccelerator s" "levelsInRange s"
  shows "paramsInRange (updateDerivedRates s) \<and> ratesNonneg (updateDerivedRates s) \<and>
         levelsInRange (updateDerivedRates s) \<and>
         currentMedicationLevel (updateDerivedRates s) =
           currentMedicationLevel s * 0.99 + medicationValue s * 0.01"
proof -
  have t1: "0 \<le> 1 + 0.002 * (temperatureValue s - 500)"
    using assms by (simp add: ranges field_simps)
  have t2: "0 \<le> 1 + 0.001 * (temperatureValue s - 500)"
    using assms by (simp add: ranges field_simps)
  have t3: "0 \<le> 1 - medicationValue s / 2000"
    using assms by (simp add: ranges)
  have r1: "0 \<le> 0.05 * (1 + 0.002 * (temperatureValue s - 500)) * progressionAccelerator s"
    using t1 assms(2) by (intro mult_nonneg_nonneg) simp_all
  have r2: "0 \<le> 0.05 * (1 + 0.001 * (temperatureValue s - 500)) *
                  (1 - medicationValue s / 2000) * progressionAccelerator s"
    using t2 t3 assms(2) by (intro mult_nonneg_nonneg) simp_all
  have "ratesNonneg (updateDerivedRates s)"
    unfolding ratesNonneg_def updateDerivedRates_def using r1 r2 assms(2) by simp
  moreover have "paramsInRange (updateDerivedRates s) \<and> levelsInRange (updateDerivedRates s)"
    using assms by (simp add: updateDerivedRates_def paramsInRange_def levelsInRange_def)
  moreover have "currentMedicationLevel (updateDerivedRates s) =
           currentMedicationLevel s * 0.99 + medicationValue s * 0.01"
    by (simp add: updateDerivedRates_def)
  ultimately show ?thesis by simp
qed

lemma updateParameters_range:
  assumes "paramsInRange s" "0 \<le> progressionAccelerator s" "levelsInRange s"
  shows "paramsInRange (updateParameters s) \<and> levelsInRange (updateParameters s) \<and>
         0 \<le> progressionAccelerator (updateParameters s) \<and>
         currentMedicationLevel (updateParameters s) =
           currentMedicationLevel s * 0.99 + medicationValue s * 0.01 \<and>
         medicationValue (updateParameters s) = medicationValue s"
proof -
  let ?s0 = "s\<lparr> simulationTime := simulationTime s + 1 / 60 \<rparr>"
  have 0: "paramsInRange ?s0" "0 \<le> progressionAccelerator ?s0" "levelsInRange ?s0"
    using assms by (simp_all add: paramsInRange_def levelsInRange_def)
  have 1: "paramsInRange (updateDerivedRates ?s0) \<and> ratesNonneg (updateDerivedRates ?s0) \<and>
         levelsInRange (updateDerivedRates ?s0) \<and>
         currentMedicationLevel (updateDerivedRates ?s0) =
           currentMedicationLevel s * 0.99 + medicationValue s * 0.01"
    using updateDerivedRates_range [OF 0] by simp
  have 2: "paramsInRange (updateParameters s) \<and> ratesNonneg (updateParameters s) \<and>
         levelsInRange (updateParameters s) \<and>
         currentMedicationLevel (updateParameters s) =
           currentMedicationLevel s * 0.99 + medicationValue s * 0.01"
    unfolding updateParameters_def
    using updateBiologicalState_range [of "updateDerivedRates ?s0" "1 / 60"] 1 by simp
  have 3: "medicationValue (updateParameters s) = medicationValue s"
    by (simp add: updateParameters_def updateBiologicalState_def medicationValue_blocks)
  show ?thesis using 2 3 by (simp add: ratesNonneg_def)
qed

lemma checkStageTransitions_state:
  "snd (checkStageTransitions s) =
     s\<lparr> simulationStage := simulationStage (snd (checkStageTransitions s)) \<rparr>"
  by (simp add: checkStageTransitions_def)

lemma checkStageTransitions_ranges:
  "paramsInRange (snd (checkStageTransitions s)) = paramsInRange s"
  "levelsInRange (snd (checkStageTransitions s)) = levelsInRange s"
  "progressionAccelerator (snd (checkStageTransitions s)) = progressionAccelerator s"
  "medicationValue (snd (checkStageTransitions s)) = medicationValue s"
  by (subst checkStageTransitions_state, simp add: paramsInRange_def levelsInRange_def)+

lemma update_range:
  assumes "paramsInRange s" "0 \<le> progressionAccelerator s" "levelsInRange s"
  shows "paramsInRange (snd (update s)) \<and> levelsInRange (snd (update s)) \<and>
         0 \<le> progressionAccelerator (snd (update s)) \<and>
         currentMedicationLevel (snd (update s)) =
           currentMedicationLevel s * 0.99 + medicationValue s * 0.01 \<and>
         medicationValue (snd (update s)) = medicationValue s"
  unfolding update_def checkStageTransitions_ranges checkStageTransitions_levels
  using updateParameters_range [OF assms] .

text \<open>
  Consecutive ticks: the ranges are kept, the medication parameter is not written, and the
  medication level follows the parameter geometrically.
\<close>

lemma ticks_range:
  assumes "paramsInRange s" "0 \<le> progressionAccelerator s" "levelsInRange s"
  shows "paramsInRange (((\<lambda>a. snd (update a)) ^^ n) s) \<and>
         0 \<le> progressionAccelerator (((\<lambda>a. snd (update a)) ^^ n) s) \<and>
         levelsInRange (((\<lambda>a. snd (update a)) ^^ n) s) \<and>
         medicationValue (((\<lambda>a. snd (update a)) ^^ n) s) = medicationValue s \<and>
         currentMedicationLevel (((\<lambda>a. snd (update a)) ^^ n) s) =
           medicationValue s - (medicationValue s - currentMedicationLevel s) * 0.99 ^ n"
proof (induction n)
  case 0
  show ?case using assms by simp
next
  case (Suc n)
  let ?t = "((\<lambda>a. snd (update a)) ^^ n) s"
  define p :: real where "p = 0.99 ^ n"
  have t: "paramsInRange ?t" "0 \<le> progressionAccelerator ?t" "levelsInRange ?t"
    using Suc by simp_all
  have mv: "medicationValue ?t = medicationValue s"
    using Suc by simp
  have cur: "currentMedicationLevel ?t =
      medicationValue s - (medicationValue s - currentMedicationLevel s) * p"
    using Suc by (simp add: p_def)
  have e: "currentMedicationLevel (snd (update ?t)) =
      currentMedicationLevel ?t * 0.99 + medicationValue ?t * 0.01"
    using update_range [OF t] by blast
  have arith: "(M - (M - c) * p) * 0.99 + M * 0.01 = M - (M - c) * (p * 0.99)" for M c :: real
    by (simp add: field_simps)
  have step: "currentMedicationLevel (snd (update ?t)) =
      medicationValue s - (medicationValue s - currentMedicationLevel s) * (p * 0.99)"
    unfolding e mv cur by (rule arith)
  have "0.99 ^ Suc n = p * 0.99"
    by (simp add: p_def)
  with step update_range [OF t] mv show ?case
    by simp
qed

text \<open>
  C1, as the code has it. In an instance whose eight parameters lie in [0, 1000], whose
  accelerator is not negative (its setter keeps it in [0.1, 10]) and whose sebum, bacteria,
  inflammation, neutrophil and pus levels and healing progress lie in [0, 100], a call of
  \<open>update\<close> leaves these six quantities in [0, 100], whether or not it throws. The
  medication level is not clamped: it becomes 0.99 times itself plus 0.01 times the
  medication parameter, and so stays within [0, 1000], the range of the parameter.
\<close>

theorem update_keeps_levels_in_range:
  assumes "paramsInRange s" and "0 \<le> progressionAccelerator s" and "levelsInRange s"
    and "0 \<le> currentMedicationLevel s" and "currentMedicationLevel s \<le> 1000"
  shows "levelsInRange (snd (update s)) \<and>
         currentMedicationLevel (snd (update s)) =
           currentMedicationLevel s * 0.99 + medicationValue s * 0.01 \<and>
         0 \<le> currentMedicationLevel (snd (update s)) \<and>
         currentMedicationLevel (snd (update s)) \<le> 1000"
proof -
  have mv: "0 \<le> medicationValue s" "medicationValue s \<le> 1000"
    using assms(1) by (simp_all add: paramsInRange_def)
  have step: "levelsInRange (snd (update s))"
    "currentMedicationLevel (snd (update s)) =
       currentMedicationLevel s * 0.99 + medicationValue s * 0.01"
    using update_range [OF assms(1-3)] by blast+
  have "0 \<le> currentMedicationLevel s * 0.99 + medicationValue s * 0.01"
    using assms(4) mv(1) by simp
  moreover have "currentMedicationLevel s * 0.99 + medicationValue s * 0.01 \<le> 1000"
    using assms(5) mv(2) by simp
  ultimately show ?thesis
    using step by simp
qed

lemma new_in_range:
  "paramsInRange new_AcneSimulation"
  "0 \<le> progressionAccelerator new_AcneSimulation"
  "levelsInRange new_AcneSimulation"
  "0 \<le> currentMedicationLevel new_AcneSimulation"
  "currentMedicationLevel new_AcneSimulation \<le> 1000"
  by (simp_all add: new_AcneSimulation_def paramsInRange_def levelsInRange_def)

text \<open>On a fresh instance: the ranges hold before the tick and after it.\<close>

theorem update_keeps_levels_in_range_witness:
  "paramsInRange new_AcneSimulation \<and> 0 \<le> progressionAccelerator new_AcneSimulation \<and>
   levelsInRange new_AcneSimulation \<and> currentMedicationLevel new_AcneSimulation = 0 \<and>
   levelsInRange (snd (update new_AcneSimulation)) \<and>
   currentMedicationLevel (snd (update new_AcneSimulation)) = 0"
  using update_keeps_levels_in_range [OF new_in_range] new_in_range
  by (simp add: new_AcneSimulation_def)

text \<open>
  C1 as stated fails for the medication level. Take a fresh instance with the medication
  parameter at 1000 and run ten ticks: every parameter and every level is in its claimed
  range (the medication level is about 95.6). The eleventh tick leaves the medication
  level above 100 (about 104.7).
\<close>

theorem medication_level_counterexample:
  "paramsInRange (((\<lambda>a. snd (update a)) ^^ 10)
     (new_AcneSimulation\<lparr> medicationValue := 1000 \<rparr>)) \<and>
   levelsInRange (((\<lambda>a. snd (update a)) ^^ 10)
     (new_AcneSimulation\<lparr> medicationValue := 1000 \<rparr>)) \<and>
   0 \<le> progressionAccelerator (((\<lambda>a. snd (update a)) ^^ 10)
     (new_AcneSimulation\<lparr> medicationValue := 1000 \<rparr>)) \<and>
   0 \<le> currentMedicationLevel (((\<lambda>a. snd (update a)) ^^ 10)
     (new_AcneSimulation\<lparr> medicationValue := 1000 \<rparr>)) \<and>
   currentMedicationLevel (((\<lambda>a. snd (update a)) ^^ 10)
     (new_AcneSimulation\<lparr> medicationValue := 1000 \<rparr>)) \<le> 100 \<and>
   100 < currentMedicationLevel (snd (update (((\<lambda>a. snd (update a)) ^^ 10)
     (new_AcneSimulation\<lparr> medicationValue := 1000 \<rparr>))))"
proof -
  let ?s0 = "new_AcneSimulation\<lparr> medicationValue := 1000 \<rparr>"
  have r: "paramsInRange ?s0" "0 \<le> progressionAccelerator ?s0" "levelsInRange ?s0"
    by (simp_all add: new_AcneSimulation_def paramsInRange_def levelsInRange_def)
  have m: "medicationValue ?s0 = 1000" "currentMedicationLevel ?s0 = 0"
    by (simp_all add: new_AcneSimulation_def)
  have a: "currentMedicationLevel (((\<lambda>a. snd (update a)) ^^ 10) ?s0) = 1000 - 1000 * 0.99 ^ 10"
    using ticks_range [OF r, of 10] by (simp only: m) simp
  have b: "currentMedicationLevel (((\<lambda>a. snd (update a)) ^^ 11) ?s0) = 1000 - 1000 * 0.99 ^ 11"
    using ticks_range [OF r, of 11] by (simp only: m) simp
  have b': "((\<lambda>a. snd (update a)) ^^ 11) ?s0 = snd (update (((\<lambda>a. snd (update a)) ^^ 10) ?s0))"
    by (simp add: eval_nat_numeral)
  have c: "0 \<le> 1000 - 1000 * (0.99::real) ^ 10" "1000 - 1000 * (0.99::real) ^ 10 \<le> 100"
     "100 < 1000 - 1000 * (0.99::real) ^ 11"
    by (simp_all add: power_divide)
  show ?thesis
    using ticks_range [OF r, of 10] a b c unfolding b' by simp
qed

subsection \<open>The step of a tick\<close>





lemma update_new:
  "update new_AcneSimulation =
     (Normal, new_AcneSimulation\<lparr> simulationTime := 1 / 60, currentSebumLevel := 24001 / 1200,
        baselineInflammation := Some 0, humidityEffect := Some 1, lastLogTime := Some 0 \<rparr>)"
  by (simp add: update_def updateParameters_def updateDerivedRates_def updateBiologicalState_def
      integrateSebum_def integrateBacteria_def integrateInflammation_def integratePus_def
      integrateHealing_def logPeriodically_def checkStageTransitions_def new_AcneSimulation_def
      thresholds Let_def)



subsection \<open>Calls of methods the class does not define\<close>

lemma transition_throws:
  "simulationStage (snd (checkStageTransitions s)) \<noteq> simulationStage s \<Longrightarrow>
   fst (checkStageTransitions s) = Throw (TypeError ''updateStageVisuals is not a function'')"
  by (auto simp add: checkStageTransitions_def callMethod_updateStageVisuals split: if_splits)

text \<open>
  C6 fails on the code. Every branch of \<open>checkStageTransitions\<close> that changes the
  stage calls \<open>this.updateStageVisuals()\<close>, which the class does not define (it is a
  method of the visualization class), so the tick in which an automatic transition fires
  throws a TypeError out of \<open>update\<close>. A fresh instance advanced by hand four times is in
  rupture with bacteria 65; the next tick moves it to worsening and throws.
\<close>

theorem update_throws_on_transition:
  "update ((advanceToNextStage ^^ 4) new_AcneSimulation) =
     (Throw (TypeError ''updateStageVisuals is not a function''),
      new_AcneSimulation\<lparr> simulationTime := 1 / 60, simulationStage := ''worsening'',
        currentSebumLevel := 84001 / 1200, currentBacteriaLevel := 15613 / 240,
        currentInflammationLevel := 23048413 / 576000,
        currentNeutrophilLevel := 8413 / 288000, currentPusLevel := 90,
        baselineInflammation := Some 0, humidityEffect := Some 1, lastLogTime := Some 0 \<rparr>)"
  using advance_trace(4) [OF new_incubation]
  by (simp add: update_def updateParameters_def updateDerivedRates_def updateBiologicalState_def
      integrateSebum_def integrateBacteria_def integrateInflammation_def integratePus_def
      integrateHealing_def logPeriodically_def checkStageTransitions_def new_AcneSimulation_def
      callMethod_updateStageVisuals thresholds Let_def)

text \<open>
  C2 fails on the code. The class defines no method \<open>reset\<close>: the driver's
  \<open>resetSimulation\<close> throws a TypeError at \<open>simulation.reset()\<close> and the instance stays
  as it was. After one tick of a fresh instance the sebum level is 20 + 1/1200 and the
  simulation time 1/60, before and after the attempted reset.
\<close>

theorem resetSimulation_throws:
  "''reset'' \<notin> set AcneSimulation_methods \<and>
   resetSimulation (snd (update new_AcneSimulation)) =
     (Throw (TypeError ''reset is not a function''), snd (update new_AcneSimulation)) \<and>
   currentSebumLevel (snd (resetSimulation (snd (update new_AcneSimulation)))) = 20 + 1 / 1200 \<and>
   simulationTime (snd (resetSimulation (snd (update new_AcneSimulation)))) = 1 / 60"
  by (simp add: resetSimulation_def callMethod_def AcneSimulation_methods_def update_new)

text \<open>
  C4 fails on the code. The class defines none of the eight setters that the driver's
  \<open>handleSliderChange\<close> calls: each call throws a TypeError and the parameter keeps its
  value (here the sebum parameter stays 500 when the slider is moved to 700, and to 5000).
\<close>

theorem handleSliderChange_throws:
  "{''setSebumParam'', ''setBacteriaParam'', ''setMedicationParam'',
    ''setInflammationParam'', ''setHealingParam'', ''setTemperatureParam'',
    ''setHumidityParam'', ''setFrictionParam''} \<inter> set AcneSimulation_methods = {} \<and>
   handleSliderChange ''sebum-slider'' 700 new_AcneSimulation =
     (Throw (TypeError ''setSebumParam is not a function''), new_AcneSimulation) \<and>
   handleSliderChange ''sebum-slider'' 5000 new_AcneSimulation =
     (Throw (TypeError ''setSebumParam is not a function''), new_AcneSimulation) \<and>
   sebumValue (snd (handleSliderChange ''sebum-slider'' 700 new_AcneSimulation)) = 500"
  by (simp add: handleSliderChange_def callMethod_def AcneSimulation_methods_def)
     (simp add: new_AcneSimulation_def)

end
